theory Spec2Isabelle
  imports Complex_Main
begin

section \<open>Data model\<close>

text \<open>
  The application is a set of page components that issue store calls one after another.
  The store is modelled as a record of its tables and every handler as a function from
  the store to the new store and the notification it shows.

  Identifiers are opaque strings. Quantities are the store's \<^verbatim>\<open>DECIMAL\<close> columns,
  modelled as exact rationals. The table \<^verbatim>\<open>stock_levels\<close> carries the constraint
  \<^verbatim>\<open>UNIQUE(product_id, warehouse_id)\<close>, so it is a partial map from that pair to the
  quantity; \<^verbatim>\<open>.single()\<close> on it is the lookup. The document tables and the ledger
  are lists of rows, in insertion order. Store calls are taken to succeed, except where
  a handler inspects the returned error.

  Every handler takes the document as the page holds it (the row it loaded), as the
  source does. Two values come from outside: \<open>user\<close>, the id of the signed-in user that
  is written to \<^verbatim>\<open>created_by\<close>, and \<open>now\<close>, the value of
  \<^verbatim>\<open>new Date().toISOString()\<close> at the moment of validation.
\<close>

type_synonym uuid = string
type_synonym timestamp = string

datatype doc_status = Draft | Waiting | Ready | Done | Canceled

datatype movement_type = Receipt | Delivery | Transfer_in | Transfer_out | Adjustment

datatype toast = ToastError string | ToastSuccess string

record stock_movement =
  sm_product_id :: uuid
  sm_warehouse_id :: uuid
  sm_movement_type :: movement_type
  sm_quantity :: rat
  sm_reference_id :: uuid
  sm_reference_type :: string
  sm_notes :: "string option"
  sm_created_by :: uuid

record receipt =
  r_id :: uuid
  r_receipt_number :: string
  r_warehouse_id :: uuid
  r_status :: doc_status
  r_created_by :: uuid
  r_validated_at :: "timestamp option"

record receipt_line =
  rl_receipt_id :: uuid
  rl_product_id :: uuid
  rl_quantity :: rat

record delivery =
  d_id :: uuid
  d_delivery_number :: string
  d_warehouse_id :: uuid
  d_status :: doc_status
  d_created_by :: uuid
  d_validated_at :: "timestamp option"

record delivery_line =
  dl_delivery_id :: uuid
  dl_product_id :: uuid
  dl_quantity :: rat

record internal_transfer =
  it_id :: uuid
  it_transfer_number :: string
  it_source_warehouse_id :: uuid
  it_destination_warehouse_id :: uuid
  it_product_id :: uuid
  it_quantity :: rat
  it_status :: doc_status
  it_notes :: string
  it_created_by :: uuid
  it_validated_at :: "timestamp option"

record stock_adjustment =
  sa_id :: uuid
  sa_adjustment_number :: string
  sa_product_id :: uuid
  sa_warehouse_id :: uuid
  sa_counted_quantity :: rat
  sa_system_quantity :: rat
  sa_difference :: rat
  sa_reason :: string
  sa_status :: doc_status
  sa_created_by :: uuid
  sa_validated_at :: "timestamp option"

record store =
  stock_levels :: "uuid \<times> uuid \<rightharpoonup> rat"
  stock_movements :: "stock_movement list"
  receipts :: "receipt list"
  receipt_lines :: "receipt_line list"
  deliveries :: "delivery list"
  delivery_lines :: "delivery_line list"
  internal_transfers :: "internal_transfer list"
  stock_adjustments :: "stock_adjustment list"

section \<open>Store calls\<close>

text \<open>\<^verbatim>\<open>from("stock_levels").select("*").eq(product_id).eq(warehouse_id).single()\<close>\<close>

definition select_stock_level :: "store \<Rightarrow> uuid \<Rightarrow> uuid \<Rightarrow> rat option" where
  "select_stock_level s p w = stock_levels s (p, w)"

text \<open>\<^verbatim>\<open>from("stock_levels").update({ quantity }).eq("id", existing.id)\<close>: the row read
  by the lookup is the row of the pair.\<close>

definition update_stock_level :: "uuid \<Rightarrow> uuid \<Rightarrow> rat \<Rightarrow> store \<Rightarrow> store" where
  "update_stock_level p w q s = s\<lparr>stock_levels := (stock_levels s)((p, w) \<mapsto> q)\<rparr>"

text \<open>\<^verbatim>\<open>from("stock_levels").insert({ product_id, warehouse_id, quantity })\<close>\<close>

definition insert_stock_level :: "uuid \<Rightarrow> uuid \<Rightarrow> rat \<Rightarrow> store \<Rightarrow> store" where
  "insert_stock_level p w q s = s\<lparr>stock_levels := (stock_levels s)((p, w) \<mapsto> q)\<rparr>"

text \<open>\<^verbatim>\<open>from("stock_movements").insert(rows)\<close>: the ledger is append-only.\<close>

definition insert_stock_movements :: "stock_movement list \<Rightarrow> store \<Rightarrow> store" where
  "insert_stock_movements ms s = s\<lparr>stock_movements := stock_movements s @ ms\<rparr>"

text \<open>\<^verbatim>\<open>from("receipt_lines").select("*").eq("receipt_id", id)\<close> and its delivery twin.\<close>

definition select_receipt_lines :: "store \<Rightarrow> uuid \<Rightarrow> receipt_line list" where
  "select_receipt_lines s rid = filter (\<lambda>l. rl_receipt_id l = rid) (receipt_lines s)"

definition select_delivery_lines :: "store \<Rightarrow> uuid \<Rightarrow> delivery_line list" where
  "select_delivery_lines s did = filter (\<lambda>l. dl_delivery_id l = did) (delivery_lines s)"

text \<open>\<^verbatim>\<open>update({ status: "done", validated_at: now }).eq("id", id)\<close> on each document
  table.\<close>

definition mark_receipt_done :: "uuid \<Rightarrow> timestamp \<Rightarrow> store \<Rightarrow> store" where
  "mark_receipt_done rid now s =
     s\<lparr>receipts := map (\<lambda>r. if r_id r = rid
                               then r\<lparr>r_status := Done, r_validated_at := Some now\<rparr> else r)
                        (receipts s)\<rparr>"

definition mark_delivery_done :: "uuid \<Rightarrow> timestamp \<Rightarrow> store \<Rightarrow> store" where
  "mark_delivery_done did now s =
     s\<lparr>deliveries := map (\<lambda>d. if d_id d = did
                                 then d\<lparr>d_status := Done, d_validated_at := Some now\<rparr> else d)
                          (deliveries s)\<rparr>"

definition mark_transfer_done :: "uuid \<Rightarrow> timestamp \<Rightarrow> store \<Rightarrow> store" where
  "mark_transfer_done tid now s =
     s\<lparr>internal_transfers :=
          map (\<lambda>t. if it_id t = tid
                    then t\<lparr>it_status := Done, it_validated_at := Some now\<rparr> else t)
              (internal_transfers s)\<rparr>"

definition mark_adjustment_done :: "uuid \<Rightarrow> timestamp \<Rightarrow> store \<Rightarrow> store" where
  "mark_adjustment_done aid now s =
     s\<lparr>stock_adjustments :=
          map (\<lambda>a. if sa_id a = aid
                    then a\<lparr>sa_status := Done, sa_validated_at := Some now\<rparr> else a)
              (stock_adjustments s)\<rparr>"

section \<open>Receipts\<close>

definition receipt_movement :: "uuid \<Rightarrow> receipt \<Rightarrow> receipt_line \<Rightarrow> stock_movement" where
  "receipt_movement user r line =
     \<lparr>sm_product_id = rl_product_id line, sm_warehouse_id = r_warehouse_id r,
      sm_movement_type = Receipt, sm_quantity = rl_quantity line,
      sm_reference_id = r_id r, sm_reference_type = ''receipt'',
      sm_notes = None, sm_created_by = user\<rparr>"

text \<open>The body of \<^verbatim>\<open>for (const line of lines)\<close> in \<^verbatim>\<open>handleValidateReceipt\<close>.\<close>

definition receipt_line_step :: "uuid \<Rightarrow> receipt \<Rightarrow> receipt_line \<Rightarrow> store \<Rightarrow> store" where
  "receipt_line_step user r line s =
     insert_stock_movements [receipt_movement user r line]
       (case select_stock_level s (rl_product_id line) (r_warehouse_id r) of
          Some q \<Rightarrow>
            update_stock_level (rl_product_id line) (r_warehouse_id r) (q + rl_quantity line) s
        | None \<Rightarrow>
            insert_stock_level (rl_product_id line) (r_warehouse_id r) (rl_quantity line) s)"

fun receipt_lines_loop :: "uuid \<Rightarrow> receipt \<Rightarrow> receipt_line list \<Rightarrow> store \<Rightarrow> store" where
  "receipt_lines_loop user r [] s = s"
| "receipt_lines_loop user r (line # rest) s =
     receipt_lines_loop user r rest (receipt_line_step user r line s)"

text \<open>\<^verbatim>\<open>handleValidateReceipt\<close> after its first query; \<open>lines\<close> is the query's
  \<^verbatim>\<open>data\<close>, \<open>None\<close> when the store returned none.\<close>

definition handleValidateReceipt_lines ::
  "uuid \<Rightarrow> timestamp \<Rightarrow> store \<Rightarrow> receipt \<Rightarrow> receipt_line list option \<Rightarrow> store \<times> toast" where
  "handleValidateReceipt_lines user now s r lines =
     (case lines of
        None \<Rightarrow> (s, ToastError ''Cannot validate receipt without products'')
      | Some [] \<Rightarrow> (s, ToastError ''Cannot validate receipt without products'')
      | Some (l # ls) \<Rightarrow>
          (mark_receipt_done (r_id r) now (receipt_lines_loop user r (l # ls) s),
           ToastSuccess ''Receipt validated and stock updated''))"

definition handleValidateReceipt :: "uuid \<Rightarrow> timestamp \<Rightarrow> store \<Rightarrow> receipt \<Rightarrow> store \<times> toast" where
  "handleValidateReceipt user now s r =
     handleValidateReceipt_lines user now s r (Some (select_receipt_lines s (r_id r)))"

section \<open>Deliveries\<close>

definition delivery_movement :: "uuid \<Rightarrow> delivery \<Rightarrow> delivery_line \<Rightarrow> stock_movement" where
  "delivery_movement user d line =
     \<lparr>sm_product_id = dl_product_id line, sm_warehouse_id = d_warehouse_id d,
      sm_movement_type = Delivery, sm_quantity = - dl_quantity line,
      sm_reference_id = d_id d, sm_reference_type = ''delivery'',
      sm_notes = None, sm_created_by = user\<rparr>"

text \<open>The loop of \<^verbatim>\<open>handleValidateDelivery\<close>. \<open>Inl s\<close> is the early
  \<^verbatim>\<open>return\<close> after the insufficient-stock notification, with the store as it is at
  that moment; \<open>Inr s\<close> is the loop running to its end.\<close>

fun delivery_lines_loop :: "uuid \<Rightarrow> delivery \<Rightarrow> delivery_line list \<Rightarrow> store \<Rightarrow> store + store" where
  "delivery_lines_loop user d [] s = Inr s"
| "delivery_lines_loop user d (line # rest) s =
     (case select_stock_level s (dl_product_id line) (d_warehouse_id d) of
        None \<Rightarrow> Inl s
      | Some q \<Rightarrow>
          if q < dl_quantity line then Inl s
          else delivery_lines_loop user d rest
                 (insert_stock_movements [delivery_movement user d line]
                    (update_stock_level (dl_product_id line) (d_warehouse_id d)
                       (q - dl_quantity line) s)))"

definition handleValidateDelivery_lines ::
  "uuid \<Rightarrow> timestamp \<Rightarrow> store \<Rightarrow> delivery \<Rightarrow> delivery_line list option \<Rightarrow> store \<times> toast" where
  "handleValidateDelivery_lines user now s d lines =
     (case lines of
        None \<Rightarrow> (s, ToastError ''Cannot validate delivery without products'')
      | Some [] \<Rightarrow> (s, ToastError ''Cannot validate delivery without products'')
      | Some (l # ls) \<Rightarrow>
          (case delivery_lines_loop user d (l # ls) s of
             Inl s' \<Rightarrow> (s', ToastError ''Insufficient stock for this delivery'')
           | Inr s' \<Rightarrow>
               (mark_delivery_done (d_id d) now s',
                ToastSuccess ''Delivery validated and stock updated'')))"

definition handleValidateDelivery :: "uuid \<Rightarrow> timestamp \<Rightarrow> store \<Rightarrow> delivery \<Rightarrow> store \<times> toast" where
  "handleValidateDelivery user now s d =
     handleValidateDelivery_lines user now s d (Some (select_delivery_lines s (d_id d)))"

section \<open>Internal transfers\<close>

text \<open>The fields of the creation form that \<^verbatim>\<open>handleSubmit\<close> reads; the quantity is
  the result of \<^verbatim>\<open>parseInt\<close>.\<close>

record transfer_form =
  tf_source_warehouse_id :: uuid
  tf_destination_warehouse_id :: uuid
  tf_product_id :: uuid
  tf_quantity :: int
  tf_notes :: string

text \<open>\<^verbatim>\<open>handleSubmit\<close> of the transfers page. \<open>new_id\<close> is the identifier the store
  generates for the row, \<open>number\<close> the client-side document number, \<open>insert_error\<close> the
  \<^verbatim>\<open>error\<close> of the insert call (\<open>None\<close> on success).\<close>

definition Transfers_handleSubmit ::
  "uuid \<Rightarrow> uuid \<Rightarrow> string \<Rightarrow> string option \<Rightarrow> transfer_form \<Rightarrow> store \<Rightarrow> store \<times> toast" where
  "Transfers_handleSubmit user new_id number insert_error form s =
     (if tf_source_warehouse_id form = tf_destination_warehouse_id form
      then (s, ToastError ''Source and destination warehouses must be different'')
      else (case insert_error of
              Some msg \<Rightarrow>
                (s, ToastError (if msg = [] then ''Failed to create transfer'' else msg))
            | None \<Rightarrow>
                (s\<lparr>internal_transfers := internal_transfers s @
                     [\<lparr>it_id = new_id, it_transfer_number = number,
                       it_source_warehouse_id = tf_source_warehouse_id form,
                       it_destination_warehouse_id = tf_destination_warehouse_id form,
                       it_product_id = tf_product_id form,
                       it_quantity = of_int (tf_quantity form),
                       it_status = Draft, it_notes = tf_notes form,
                       it_created_by = user, it_validated_at = None\<rparr>]\<rparr>,
                 ToastSuccess ''Transfer created successfully'')))"

definition transfer_out_movement :: "uuid \<Rightarrow> internal_transfer \<Rightarrow> stock_movement" where
  "transfer_out_movement user t =
     \<lparr>sm_product_id = it_product_id t, sm_warehouse_id = it_source_warehouse_id t,
      sm_movement_type = Transfer_out, sm_quantity = - it_quantity t,
      sm_reference_id = it_id t, sm_reference_type = ''transfer'',
      sm_notes = None, sm_created_by = user\<rparr>"

definition transfer_in_movement :: "uuid \<Rightarrow> internal_transfer \<Rightarrow> stock_movement" where
  "transfer_in_movement user t =
     \<lparr>sm_product_id = it_product_id t, sm_warehouse_id = it_destination_warehouse_id t,
      sm_movement_type = Transfer_in, sm_quantity = it_quantity t,
      sm_reference_id = it_id t, sm_reference_type = ''transfer'',
      sm_notes = None, sm_created_by = user\<rparr>"

text \<open>The destination update of \<^verbatim>\<open>handleValidateTransfer\<close>: the destination row is
  read after the source row has been written.\<close>

definition credit_destination :: "internal_transfer \<Rightarrow> store \<Rightarrow> store" where
  "credit_destination t s =
     (case select_stock_level s (it_product_id t) (it_destination_warehouse_id t) of
        Some q \<Rightarrow>
          update_stock_level (it_product_id t) (it_destination_warehouse_id t)
            (q + it_quantity t) s
      | None \<Rightarrow>
          insert_stock_level (it_product_id t) (it_destination_warehouse_id t)
            (it_quantity t) s)"

definition handleValidateTransfer ::
  "uuid \<Rightarrow> timestamp \<Rightarrow> store \<Rightarrow> internal_transfer \<Rightarrow> store \<times> toast" where
  "handleValidateTransfer user now s t =
     (case select_stock_level s (it_product_id t) (it_source_warehouse_id t) of
        None \<Rightarrow> (s, ToastError ''Insufficient stock in source warehouse'')
      | Some q \<Rightarrow>
          if q < it_quantity t
          then (s, ToastError ''Insufficient stock in source warehouse'')
          else
            (mark_transfer_done (it_id t) now
               (insert_stock_movements [transfer_out_movement user t, transfer_in_movement user t]
                  (credit_destination t
                     (update_stock_level (it_product_id t) (it_source_warehouse_id t)
                        (q - it_quantity t) s))),
             ToastSuccess ''Transfer validated and stock updated''))"

section \<open>Stock adjustments\<close>

text \<open>\<^verbatim>\<open>loadSystemQuantity\<close>: the value it stores in the page state \<^verbatim>\<open>systemQty\<close>.\<close>

definition loadSystemQuantity :: "store \<Rightarrow> uuid \<Rightarrow> uuid \<Rightarrow> rat" where
  "loadSystemQuantity s productId warehouseId =
     (case select_stock_level s productId warehouseId of Some q \<Rightarrow> q | None \<Rightarrow> 0)"

text \<open>The page state and form fields that \<^verbatim>\<open>handleSubmit\<close> of the adjustments page
  reads; the counted quantity is the result of \<^verbatim>\<open>parseFloat\<close>.\<close>

record adjustment_form =
  af_selectedProduct :: uuid
  af_selectedWarehouse :: uuid
  af_systemQty :: rat
  af_counted_quantity :: rat
  af_reason :: string

definition Adjustments_handleSubmit ::
  "uuid \<Rightarrow> uuid \<Rightarrow> string \<Rightarrow> string option \<Rightarrow> adjustment_form \<Rightarrow> store \<Rightarrow> store \<times> toast" where
  "Adjustments_handleSubmit user new_id number insert_error form s =
     (case insert_error of
        Some msg \<Rightarrow>
          (s, ToastError (if msg = [] then ''Failed to create adjustment'' else msg))
      | None \<Rightarrow>
          (s\<lparr>stock_adjustments := stock_adjustments s @
               [\<lparr>sa_id = new_id, sa_adjustment_number = number,
                 sa_product_id = af_selectedProduct form,
                 sa_warehouse_id = af_selectedWarehouse form,
                 sa_counted_quantity = af_counted_quantity form,
                 sa_system_quantity = af_systemQty form,
                 sa_difference = af_counted_quantity form - af_systemQty form,
                 sa_reason = af_reason form, sa_status = Draft,
                 sa_created_by = user, sa_validated_at = None\<rparr>]\<rparr>,
           ToastSuccess ''Adjustment created successfully''))"

definition adjustment_movement :: "uuid \<Rightarrow> stock_adjustment \<Rightarrow> stock_movement" where
  "adjustment_movement user a =
     \<lparr>sm_product_id = sa_product_id a, sm_warehouse_id = sa_warehouse_id a,
      sm_movement_type = Adjustment, sm_quantity = sa_difference a,
      sm_reference_id = sa_id a, sm_reference_type = ''adjustment'',
      sm_notes = Some (sa_reason a), sm_created_by = user\<rparr>"

definition handleValidateAdjustment ::
  "uuid \<Rightarrow> timestamp \<Rightarrow> store \<Rightarrow> stock_adjustment \<Rightarrow> store \<times> toast" where
  "handleValidateAdjustment user now s a =
     (mark_adjustment_done (sa_id a) now
        (insert_stock_movements [adjustment_movement user a]
           (case select_stock_level s (sa_product_id a) (sa_warehouse_id a) of
              Some q \<Rightarrow>
                update_stock_level (sa_product_id a) (sa_warehouse_id a)
                  (sa_counted_quantity a) s
            | None \<Rightarrow>
                insert_stock_level (sa_product_id a) (sa_warehouse_id a)
                  (sa_counted_quantity a) s)),
      ToastSuccess ''Adjustment validated and stock updated'')"

section \<open>The Validate action of a table row\<close>





section \<open>Low stock\<close>











section \<open>Balances, ledger sums and sequences of validations\<close>



datatype validation =
    ValidateReceipt receipt
  | ValidateDelivery delivery
  | ValidateTransfer internal_transfer
  | ValidateAdjustment stock_adjustment

fun validate :: "uuid \<Rightarrow> timestamp \<Rightarrow> store \<Rightarrow> validation \<Rightarrow> store \<times> toast" where
  "validate user now s (ValidateReceipt r) = handleValidateReceipt user now s r"
| "validate user now s (ValidateDelivery d) = handleValidateDelivery user now s d"
| "validate user now s (ValidateTransfer t) = handleValidateTransfer user now s t"
| "validate user now s (ValidateAdjustment a) = handleValidateAdjustment user now s a"




section \<open>A concrete scenario\<close>

text \<open>Product \<open>X1\<close>, warehouses \<open>WH-MAIN\<close> and \<open>WH-SEC\<close>, no balance and no movement
  yet: a receipt of 10, a delivery of 4 and a transfer of 6 to \<open>WH-SEC\<close>, all drafts.\<close>

definition ex_receipt :: receipt where
  "ex_receipt = \<lparr>r_id = ''R1'', r_receipt_number = ''RCP-1'', r_warehouse_id = ''WH-MAIN'',
     r_status = Draft, r_created_by = ''U1'', r_validated_at = None\<rparr>"

definition ex_delivery :: delivery where
  "ex_delivery = \<lparr>d_id = ''D1'', d_delivery_number = ''DEL-1'', d_warehouse_id = ''WH-MAIN'',
     d_status = Draft, d_created_by = ''U1'', d_validated_at = None\<rparr>"

definition ex_transfer :: internal_transfer where
  "ex_transfer = \<lparr>it_id = ''T1'', it_transfer_number = ''TRF-1'',
     it_source_warehouse_id = ''WH-MAIN'', it_destination_warehouse_id = ''WH-SEC'',
     it_product_id = ''X1'', it_quantity = 6, it_status = Draft, it_notes = [],
     it_created_by = ''U1'', it_validated_at = None\<rparr>"

definition ex_store :: store where
  "ex_store = \<lparr>stock_levels = Map.empty, stock_movements = [],
     receipts = [ex_receipt],
     receipt_lines = [\<lparr>rl_receipt_id = ''R1'', rl_product_id = ''X1'', rl_quantity = 10\<rparr>],
     deliveries = [ex_delivery],
     delivery_lines = [\<lparr>dl_delivery_id = ''D1'', dl_product_id = ''X1'', dl_quantity = 4\<rparr>],
     internal_transfers = [ex_transfer],
     stock_adjustments = []\<rparr>"



text \<open>A delivery of two lines, 4 of \<open>X1\<close> and then 1 of \<open>Y2\<close>, on a store that holds
  10 of \<open>X1\<close> and no \<open>Y2\<close>.\<close>

definition ex_short_delivery :: delivery where
  "ex_short_delivery = \<lparr>d_id = ''D2'', d_delivery_number = ''DEL-2'',
     d_warehouse_id = ''WH-MAIN'', d_status = Draft, d_created_by = ''U1'',
     d_validated_at = None\<rparr>"

definition ex_short_store :: store where
  "ex_short_store = \<lparr>stock_levels = [(''X1'', ''WH-MAIN'') \<mapsto> 10], stock_movements = [],
     receipts = [], receipt_lines = [],
     deliveries = [ex_short_delivery],
     delivery_lines = [\<lparr>dl_delivery_id = ''D2'', dl_product_id = ''X1'', dl_quantity = 4\<rparr>,
                       \<lparr>dl_delivery_id = ''D2'', dl_product_id = ''Y2'', dl_quantity = 1\<rparr>],
     internal_transfers = [], stock_adjustments = []\<rparr>"


definition ex_negative_form :: adjustment_form where
  "ex_negative_form = \<lparr>af_selectedProduct = ''X1'', af_selectedWarehouse = ''WH-MAIN'',
     af_systemQty = loadSystemQuantity ex_store ''X1'' ''WH-MAIN'',
     af_counted_quantity = - 5, af_reason = ''count''\<rparr>"

definition ex_same_warehouse_form :: transfer_form where
  "ex_same_warehouse_form = \<lparr>tf_source_warehouse_id = ''WH-MAIN'',
     tf_destination_warehouse_id = ''WH-MAIN'', tf_product_id = ''X1'', tf_quantity = 3,
     tf_notes = []\<rparr>"








section \<open>Receipt validation\<close>

lemmas store_ops = select_stock_level_def update_stock_level_def insert_stock_level_def
  insert_stock_movements_def














section \<open>Documents without lines\<close>

text \<open>
  Claim C8. When the line query of a receipt or a delivery returns nothing or an empty
  list, the handler shows the error notification and returns the store as it was: no
  balance, no movement and no document row (so no status) is written.
\<close>

theorem validation_without_lines_rejects:
  assumes "rlines = None \<or> rlines = Some []" and "dlines = None \<or> dlines = Some []"
  shows "handleValidateReceipt_lines user now s r rlines =
           (s, ToastError ''Cannot validate receipt without products'')
       \<and> handleValidateDelivery_lines user now s d dlines =
           (s, ToastError ''Cannot validate delivery without products'')
       \<and> (select_receipt_lines s (r_id r) = [] \<longrightarrow>
            handleValidateReceipt user now s r =
              (s, ToastError ''Cannot validate receipt without products''))
       \<and> (select_delivery_lines s (d_id d) = [] \<longrightarrow>
            handleValidateDelivery user now s d =
              (s, ToastError ''Cannot validate delivery without products''))"
  using assms
  by (auto simp: handleValidateReceipt_def handleValidateReceipt_lines_def
        handleValidateDelivery_def handleValidateDelivery_lines_def)

theorem validation_without_lines_rejects_witness:
  "handleValidateReceipt ''U1'' ''t1'' ex_short_store ex_receipt =
     (ex_short_store, ToastError ''Cannot validate receipt without products'')
   \<and> handleValidateDelivery ''U1'' ''t1'' ex_short_store ex_delivery =
     (ex_short_store, ToastError ''Cannot validate delivery without products'')
   \<and> handleValidateDelivery_lines ''U1'' ''t1'' ex_store ex_delivery None =
     (ex_store, ToastError ''Cannot validate delivery without products'')"
proof -
  have r: "select_receipt_lines ex_short_store (r_id ex_receipt) = []"
    by (simp add: select_receipt_lines_def ex_short_store_def)
  have d: "select_delivery_lines ex_short_store (d_id ex_delivery) = []"
    by (simp add: select_delivery_lines_def ex_short_store_def ex_delivery_def)
  have n: "(None :: receipt_line list option) = None \<or> None = Some []"
    "(None :: delivery_line list option) = None \<or> None = Some []"
    by simp_all
  from validation_without_lines_rejects [OF n, of "''U1''" "''t1''" ex_short_store ex_receipt ex_delivery]
    validation_without_lines_rejects [OF n, of "''U1''" "''t1''" ex_store ex_receipt ex_delivery]
    r d
  show ?thesis by simp
qed

section \<open>Creating a transfer\<close>

text \<open>
  Claim C10. A transfer form whose source and destination warehouse are equal is
  rejected with an error notification before any store call: the store is unchanged and
  no transfer row is inserted.
\<close>

theorem transfer_same_warehouse_rejected:
  "tf_source_warehouse_id form = tf_destination_warehouse_id form \<Longrightarrow>
   Transfers_handleSubmit user new_id number insert_error form s =
     (s, ToastError ''Source and destination warehouses must be different'')"
  by (simp add: Transfers_handleSubmit_def)

theorem transfer_same_warehouse_rejected_witness:
  "Transfers_handleSubmit ''U1'' ''T9'' ''TRF-9'' None ex_same_warehouse_form ex_store =
     (ex_store, ToastError ''Source and destination warehouses must be different'')
   \<and> internal_transfers
       (fst (Transfers_handleSubmit ''U1'' ''T9'' ''TRF-9'' None ex_same_warehouse_form ex_store))
     = [ex_transfer]"
proof -
  have h: "tf_source_warehouse_id ex_same_warehouse_form =
           tf_destination_warehouse_id ex_same_warehouse_form"
    by (simp add: ex_same_warehouse_form_def)
  from transfer_same_warehouse_rejected [OF h] show ?thesis
    by (simp add: ex_store_def)
qed

section \<open>Transfer validation\<close>







section \<open>Adjustment validation\<close>





section \<open>Low stock\<close>








section \<open>Delivery validation\<close>

text \<open>When the first line is the short one, the handler returns before any write.\<close>

lemma delivery_first_line_short_rejects_unchanged:
  assumes "select_delivery_lines s (d_id d) = line # rest"
      and "stock_levels s (dl_product_id line, d_warehouse_id d) = None \<or>
           (\<exists>q. stock_levels s (dl_product_id line, d_warehouse_id d) = Some q \<and>
                q < dl_quantity line)"
  shows "handleValidateDelivery user now s d =
           (s, ToastError ''Insufficient stock for this delivery'')"
  using assms
  by (auto simp: handleValidateDelivery_def handleValidateDelivery_lines_def
        select_stock_level_def)

text \<open>
  Claim C1 asks that a delivery with a line short of stock leaves every balance and the
  ledger unchanged and reports failure, also when an earlier line had enough stock. The
  loop checks and posts line by line, so the lines before the short one stay posted: on
  \<open>ex_short_store\<close> (10 of \<open>X1\<close>, no \<open>Y2\<close>) the delivery of 4 \<open>X1\<close> and 1 \<open>Y2\<close> reports
  insufficient stock and stays a draft, yet the balance of \<open>X1\<close> is 6 and the ledger holds
  a delivery movement of \<open>-4\<close>.
\<close>

theorem delivery_short_second_line_keeps_first_posting:
  "select_delivery_lines ex_short_store (d_id ex_short_delivery) =
     [\<lparr>dl_delivery_id = ''D2'', dl_product_id = ''X1'', dl_quantity = 4\<rparr>,
      \<lparr>dl_delivery_id = ''D2'', dl_product_id = ''Y2'', dl_quantity = 1\<rparr>]
   \<and> stock_levels ex_short_store (''X1'', ''WH-MAIN'') = Some 10
   \<and> stock_levels ex_short_store (''Y2'', ''WH-MAIN'') = None
   \<and> stock_movements ex_short_store = []
   \<and> snd (handleValidateDelivery ''U1'' ''t1'' ex_short_store ex_short_delivery) =
       ToastError ''Insufficient stock for this delivery''
   \<and> stock_levels (fst (handleValidateDelivery ''U1'' ''t1'' ex_short_store ex_short_delivery))
       (''X1'', ''WH-MAIN'') = Some 6
   \<and> stock_movements (fst (handleValidateDelivery ''U1'' ''t1'' ex_short_store ex_short_delivery)) =
       [\<lparr>sm_product_id = ''X1'', sm_warehouse_id = ''WH-MAIN'', sm_movement_type = Delivery,
         sm_quantity = - 4, sm_reference_id = ''D2'', sm_reference_type = ''delivery'',
         sm_notes = None, sm_created_by = ''U1''\<rparr>]
   \<and> deliveries (fst (handleValidateDelivery ''U1'' ''t1'' ex_short_store ex_short_delivery)) =
       [ex_short_delivery]"
  by (simp add: handleValidateDelivery_def handleValidateDelivery_lines_def
        select_delivery_lines_def ex_short_store_def ex_short_delivery_def store_ops
        delivery_movement_def)

section \<open>Non-negative balances\<close>

text \<open>
  Claim C6 asks that no StockLevel quantity ever becomes negative. The adjustment form
  accepts any number as counted quantity and validation writes it to the balance: the
  adjustment drafted from \<open>ex_negative_form\<close> on \<open>ex_store\<close> is created and validated with
  success, and leaves the balance of \<open>X1\<close> at \<open>WH-MAIN\<close> at \<open>-5\<close>.
\<close>

theorem negative_count_gives_negative_balance:
  "snd (Adjustments_handleSubmit ''U1'' ''A2'' ''ADJ-2'' None ex_negative_form ex_store) =
       ToastSuccess ''Adjustment created successfully''
   \<and> sa_counted_quantity (hd (stock_adjustments
        (fst (Adjustments_handleSubmit ''U1'' ''A2'' ''ADJ-2'' None ex_negative_form ex_store))))
       = - 5
   \<and> snd (handleValidateAdjustment ''U1'' ''t1''
        (fst (Adjustments_handleSubmit ''U1'' ''A2'' ''ADJ-2'' None ex_negative_form ex_store))
        (hd (stock_adjustments
          (fst (Adjustments_handleSubmit ''U1'' ''A2'' ''ADJ-2'' None ex_negative_form ex_store)))))
       = ToastSuccess ''Adjustment validated and stock updated''
   \<and> stock_levels (fst (handleValidateAdjustment ''U1'' ''t1''
        (fst (Adjustments_handleSubmit ''U1'' ''A2'' ''ADJ-2'' None ex_negative_form ex_store))
        (hd (stock_adjustments
          (fst (Adjustments_handleSubmit ''U1'' ''A2'' ''ADJ-2'' None ex_negative_form ex_store))))))
       (''X1'', ''WH-MAIN'') = Some (- 5)"
  by (simp add: Adjustments_handleSubmit_def handleValidateAdjustment_def ex_negative_form_def
        ex_store_def store_ops mark_adjustment_done_def)

text \<open>The other validations keep balances non-negative: a receipt whose line quantities
  are non-negative, any delivery (also one that is rejected midway), a transfer of a
  non-negative quantity, and an adjustment whose counted quantity is non-negative.\<close>

lemma receipt_loop_keeps_levels_nonnegative:
  assumes "\<forall>k q. stock_levels s k = Some q \<longrightarrow> 0 \<le> q"
      and "\<forall>l \<in> set lines. 0 \<le> rl_quantity l"
  shows "\<forall>k q. stock_levels (receipt_lines_loop user r lines s) k = Some q \<longrightarrow> 0 \<le> q"
  using assms
proof (induction lines arbitrary: s)
  case Nil
  then show ?case by simp
next
  case (Cons line rest)
  have "\<forall>k q. stock_levels (receipt_line_step user r line s) k = Some q \<longrightarrow> 0 \<le> q"
    using Cons.prems
    by (auto simp: receipt_line_step_def store_ops split: option.splits if_splits)
  with Cons show ?case by simp
qed

lemma delivery_loop_keeps_levels_nonnegative:
  assumes "\<forall>k q. stock_levels s k = Some q \<longrightarrow> 0 \<le> q"
      and "delivery_lines_loop user d lines s = Inl s' \<or> delivery_lines_loop user d lines s = Inr s'"
  shows "\<forall>k q. stock_levels s' k = Some q \<longrightarrow> 0 \<le> q"
  using assms
proof (induction lines arbitrary: s)
  case Nil
  then show ?case by simp
next
  case (Cons line rest)
  show ?case
  proof (cases "select_stock_level s (dl_product_id line) (d_warehouse_id d)")
    case None
    with Cons.prems show ?thesis by simp
  next
    case (Some q0)
    show ?thesis
    proof (cases "q0 < dl_quantity line")
      case True
      with Some Cons.prems show ?thesis by simp
    next
      case False
      let ?s1 = "insert_stock_movements [delivery_movement user d line]
                   (update_stock_level (dl_product_id line) (d_warehouse_id d)
                      (q0 - dl_quantity line) s)"
      have nn: "\<forall>k q. stock_levels ?s1 k = Some q \<longrightarrow> 0 \<le> q"
        using Cons.prems(1) False by (auto simp: store_ops)
      have "delivery_lines_loop user d rest ?s1 = Inl s' \<or>
            delivery_lines_loop user d rest ?s1 = Inr s'"
        using Cons.prems(2) Some False by simp
      from Cons.IH [OF nn this] show ?thesis .
    qed
  qed
qed

lemma validations_keep_levels_nonnegative:
  assumes nn: "\<forall>k q. stock_levels s k = Some q \<longrightarrow> 0 \<le> q"
  shows "(\<forall>l \<in> set (select_receipt_lines s (r_id r)). 0 \<le> rl_quantity l) \<longrightarrow>
           (\<forall>k q. stock_levels (fst (handleValidateReceipt user now s r)) k = Some q \<longrightarrow> 0 \<le> q)"
    and "\<forall>k q. stock_levels (fst (handleValidateDelivery user now s d)) k = Some q \<longrightarrow> 0 \<le> q"
    and "0 \<le> it_quantity t \<longrightarrow>
           (\<forall>k q. stock_levels (fst (handleValidateTransfer user now s t)) k = Some q \<longrightarrow> 0 \<le> q)"
    and "0 \<le> sa_counted_quantity a \<longrightarrow>
           (\<forall>k q. stock_levels (fst (handleValidateAdjustment user now s a)) k = Some q \<longrightarrow> 0 \<le> q)"
proof -
  show "(\<forall>l \<in> set (select_receipt_lines s (r_id r)). 0 \<le> rl_quantity l) \<longrightarrow>
           (\<forall>k q. stock_levels (fst (handleValidateReceipt user now s r)) k = Some q \<longrightarrow> 0 \<le> q)"
  proof
    assume q: "\<forall>l \<in> set (select_receipt_lines s (r_id r)). 0 \<le> rl_quantity l"
    show "\<forall>k q. stock_levels (fst (handleValidateReceipt user now s r)) k = Some q \<longrightarrow> 0 \<le> q"
    proof (cases "select_receipt_lines s (r_id r)")
      case Nil
      with nn show ?thesis
        by (simp add: handleValidateReceipt_def handleValidateReceipt_lines_def)
    next
      case (Cons l ls)
      with receipt_loop_keeps_levels_nonnegative [OF nn q, of user r] show ?thesis
        by (simp add: handleValidateReceipt_def handleValidateReceipt_lines_def
              mark_receipt_done_def)
    qed
  qed
next
  show "\<forall>k q. stock_levels (fst (handleValidateDelivery user now s d)) k = Some q \<longrightarrow> 0 \<le> q"
  proof (cases "select_delivery_lines s (d_id d)")
    case Nil
    with nn show ?thesis
      by (simp add: handleValidateDelivery_def handleValidateDelivery_lines_def)
  next
    case (Cons l ls)
    show ?thesis
    proof (cases "delivery_lines_loop user d (l # ls) s")
      case (Inl s')
      with delivery_loop_keeps_levels_nonnegative [OF nn, of user d "l # ls" s'] Cons
      show ?thesis
        by (simp add: handleValidateDelivery_def handleValidateDelivery_lines_def)
    next
      case (Inr s')
      with delivery_loop_keeps_levels_nonnegative [OF nn, of user d "l # ls" s'] Cons
      show ?thesis
        by (simp add: handleValidateDelivery_def handleValidateDelivery_lines_def
              mark_delivery_done_def)
    qed
  qed
next
  show "0 \<le> it_quantity t \<longrightarrow>
           (\<forall>k q. stock_levels (fst (handleValidateTransfer user now s t)) k = Some q \<longrightarrow> 0 \<le> q)"
    using nn
    by (auto simp: handleValidateTransfer_def credit_destination_def store_ops
          mark_transfer_done_def split: option.splits if_splits)
next
  show "0 \<le> sa_counted_quantity a \<longrightarrow>
           (\<forall>k q. stock_levels (fst (handleValidateAdjustment user now s a)) k = Some q \<longrightarrow> 0 \<le> q)"
    using nn
    by (auto simp: handleValidateAdjustment_def store_ops mark_adjustment_done_def
          split: option.splits if_splits)
qed

section \<open>Documents already done\<close>




section \<open>Ledger and balance\<close>






















end
